theory Spec2Isabelle
  imports Complex_Main
begin

section \<open>SABR Monte Carlo option pricing (HW3/option_models/sabr.py)\<close>

text \<open>
  The model follows \<^verbatim>\<open>sabr.py\<close> function by function. Python floats are read as
  exact real numbers: rounding, overflow, underflow and NaN of IEEE arithmetic are
  outside the model. The calls to \<^verbatim>\<open>np.random.standard_normal\<close> read a global
  generator; here the generator is an explicit stream of draws that every function
  receives and returns advanced. Exceptions are values of type \<open>error\<close>.
\<close>

subsection \<open>Errors, values and the random source\<close>

datatype error = ZeroDivisionError | IndexError | AssertionError | ValueError

type_synonym 'a result = "error + 'a"

type_synonym rng = "nat \<Rightarrow> real"

text \<open>\<^verbatim>\<open>np.random.standard_normal(n)\<close>: the next \<open>n\<close> draws.\<close>

definition standard_normal :: "nat \<Rightarrow> rng \<Rightarrow> real list \<times> rng" where
  "standard_normal n g = (map g [0..<n], (\<lambda>k. g (k + n)))"

text \<open>\<^verbatim>\<open>np.random.standard_normal((r, c))\<close>: the next \<open>r * c\<close> draws, row by row.\<close>

definition standard_normal2 :: "nat \<Rightarrow> nat \<Rightarrow> rng \<Rightarrow> real list list \<times> rng" where
  "standard_normal2 r c g =
     (map (\<lambda>i. map (\<lambda>j. g (i * c + j)) [0..<c]) [0..<r], (\<lambda>k. g (k + r * c)))"

subsection \<open>Array operations of numpy used by the code\<close>

text \<open>\<^verbatim>\<open>np.cumsum(a, axis=0)\<close>: running sums of the rows.\<close>

fun cumsum_from :: "real list \<Rightarrow> real list list \<Rightarrow> real list list" where
  "cumsum_from acc [] = []"
| "cumsum_from acc (r # rs) = map2 (+) acc r # cumsum_from (map2 (+) acc r) rs"

fun cumsum_axis0 :: "real list list \<Rightarrow> real list list" where
  "cumsum_axis0 [] = []"
| "cumsum_axis0 (r # rs) = r # cumsum_from r rs"

text \<open>\<^verbatim>\<open>np.sum(a, axis=0)\<close> of an array with \<open>ncols\<close> columns: one sum per column.\<close>

definition sum_axis0 :: "nat \<Rightarrow> real list list \<Rightarrow> real list" where
  "sum_axis0 ncols rows = map (\<lambda>j. sum_list (map (\<lambda>r. r ! j) rows)) [0..<ncols]"

text \<open>\<^verbatim>\<open>np.mean\<close> of one row.\<close>

definition mean :: "real list \<Rightarrow> real" where
  "mean xs = sum_list xs / real (length xs)"

subsection \<open>ModelABC: configuration and base model\<close>

record config =
  sigma :: real
  vov :: real
  rho :: real
  beta :: real
  intr :: real
  dt :: real
  n_path :: int

text \<open>
  \<^verbatim>\<open>__init__(self, sigma, vov=0, rho=0.0, beta=1.0, intr=0.0)\<close>; \<open>dt\<close> and
  \<open>n_path\<close> are the class attributes \<open>0.1\<close> and \<open>10000\<close>.
\<close>

definition ModelABC_init :: "real \<Rightarrow> real \<Rightarrow> real \<Rightarrow> real \<Rightarrow> real \<Rightarrow> config" where
  "ModelABC_init sigma0 vov0 rho0 beta0 intr0 =
     \<lparr>sigma = sigma0, vov = vov0, rho = rho0, beta = beta0, intr = intr0,
      dt = 0.1, n_path = 10000\<rparr>"

definition ModelABC_init_default :: "real \<Rightarrow> config" where
  "ModelABC_init_default sigma0 = ModelABC_init sigma0 0 0 1 0"

text \<open>The volatility handed to a pricer is a number or an array (one entry per path).\<close>

datatype num = Scalar real | Array "real list"

datatype pricer = Norm num real | Bsm num real

definition base_model :: "config \<Rightarrow> num option \<Rightarrow> pricer result" where
  "base_model self sigma_arg =
     (let s = (case sigma_arg of None \<Rightarrow> Scalar (sigma self) | Some v \<Rightarrow> v) in
      if beta self = 0 then Inr (Norm s (intr self))
      else if beta self = 1 then Inr (Bsm s (intr self))
      else Inl ValueError)"

subsection \<open>The closed-form pricers of pyfeng\<close>

text \<open>
  \<^verbatim>\<open>pf.Norm\<close> and \<open>pf.Bsm\<close> belong to the external library pyfeng. Their price and
  implied-volatility formulas are parameters of the model: \<open>bsm_price lib v r K S T cp\<close>
  is the price of the pricer built with volatility \<open>v\<close> and rate \<open>r\<close>, and
  \<open>bsm_impvol lib r p K S T cp\<close> its implied volatility at price \<open>p\<close>. Array arguments
  are broadcast element by element.
\<close>

record pyfeng =
  bsm_price :: "real \<Rightarrow> real \<Rightarrow> real \<Rightarrow> real \<Rightarrow> real \<Rightarrow> real \<Rightarrow> real"
  norm_price :: "real \<Rightarrow> real \<Rightarrow> real \<Rightarrow> real \<Rightarrow> real \<Rightarrow> real \<Rightarrow> real"
  bsm_impvol :: "real \<Rightarrow> real \<Rightarrow> real \<Rightarrow> real \<Rightarrow> real \<Rightarrow> real \<Rightarrow> real"
  norm_impvol :: "real \<Rightarrow> real \<Rightarrow> real \<Rightarrow> real \<Rightarrow> real \<Rightarrow> real \<Rightarrow> real"

fun num_at :: "num \<Rightarrow> nat \<Rightarrow> real" where
  "num_at (Scalar x) j = x"
| "num_at (Array xs) j = xs ! j"

text \<open>\<^verbatim>\<open>m.price(strike[:, None], spot, texp, cp)\<close>: one row per strike, one column per path.\<close>

fun pricer_price ::
  "pyfeng \<Rightarrow> pricer \<Rightarrow> real list \<Rightarrow> real list \<Rightarrow> real \<Rightarrow> real \<Rightarrow> real list list" where
  "pricer_price lib (Norm v r) strike spots texp cp =
     map (\<lambda>K. map (\<lambda>j. norm_price lib (num_at v j) r K (spots ! j) texp cp)
                 [0..<length spots]) strike"
| "pricer_price lib (Bsm v r) strike spots texp cp =
     map (\<lambda>K. map (\<lambda>j. bsm_price lib (num_at v j) r K (spots ! j) texp cp)
                 [0..<length spots]) strike"

text \<open>\<^verbatim>\<open>m.impvol(price, strike, spot, texp, cp)\<close> with a price and a strike array.\<close>

fun pricer_impvol ::
  "pyfeng \<Rightarrow> pricer \<Rightarrow> real list \<Rightarrow> real list \<Rightarrow> real \<Rightarrow> real \<Rightarrow> real \<Rightarrow> real list" where
  "pricer_impvol lib (Norm v r) ps strike spot texp cp =
     map2 (\<lambda>p K. norm_impvol lib r p K spot texp cp) ps strike"
| "pricer_impvol lib (Bsm v r) ps strike spot texp cp =
     map2 (\<lambda>p K. bsm_impvol lib r p K spot texp cp) ps strike"

subsection \<open>ModelABC.sigma_path and ModelABC.intvar_normalized\<close>

text \<open>\<^verbatim>\<open>np.arange(1, n_dt + 1) / n_dt * texp\<close>\<close>

definition tobs_grid :: "int \<Rightarrow> real \<Rightarrow> real list" where
  "tobs_grid n_dt texp = map (\<lambda>k. real_of_int k / real_of_int n_dt * texp) [1..n_dt]"

text \<open>
  The branches follow the lines of the source: \<open>texp / self.dt\<close> and \<open>texp / n_dt\<close>
  divide Python numbers and raise on zero, \<open>tobs[-1]\<close> raises on the empty grid, the
  assertion compares the last grid point with \<open>texp\<close>, and a negative \<open>n_path\<close> is
  refused as a dimension.
\<close>

definition sigma_path :: "config \<Rightarrow> rng \<Rightarrow> real \<Rightarrow> (real list list \<times> rng) result" where
  "sigma_path self g texp =
     (if dt self = 0 then Inl ZeroDivisionError
      else
        let n_dt = \<lceil>texp / dt self\<rceil>;
            tobs = tobs_grid n_dt texp
        in
        if n_dt = 0 then Inl ZeroDivisionError
        else
          let dt_step = texp / real_of_int n_dt in
          if tobs = [] then Inl IndexError
          else if texp \<noteq> last tobs then Inl AssertionError
          else if n_path self < 0 then Inl ValueError
          else
            let (N, g') = standard_normal2 (nat n_dt) (nat (n_path self)) g;
                Z_t = cumsum_axis0 (map (map (\<lambda>x. x * sqrt dt_step)) N);
                sigma_t = map2 (\<lambda>row t. map (\<lambda>z. exp (vov self * (z - vov self / 2 * t))) row)
                            Z_t tobs
            in Inr (replicate (nat (n_path self)) 1 # sigma_t, g'))"

definition intvar_normalized :: "real list list \<Rightarrow> real list result" where
  "intvar_normalized sp =
     (let n = length sp in
      if n = 0 then Inl IndexError
      else
        let weight = (replicate n (1::real))[0 := 0.5, n - 1 := 0.5];
            total = sum_list weight;
            weight = map (\<lambda>w. w / total) weight
        in Inr (sum_axis0 (length (hd sp)) (map2 (\<lambda>w row. map (\<lambda>x. w * x\<^sup>2) row) weight sp)))"

subsection \<open>The four simulators\<close>

text \<open>
  \<^verbatim>\<open>ModelBsmMC.price\<close>. \<open>1 / self.vov\<close> divides two Python numbers and raises
  \<open>ZeroDivisionError\<close> when \<open>vov\<close> is zero; it is evaluated after the volatility path,
  the integrated variance and the draw of \<open>Z\<close>.
\<close>

definition ModelBsmMC_price ::
  "config \<Rightarrow> rng \<Rightarrow> real list \<Rightarrow> real \<Rightarrow> real \<Rightarrow> real \<Rightarrow> (real list \<times> rng) result" where
  "ModelBsmMC_price self g strike spot texp cp =
     (case sigma_path self g texp of
        Inl e \<Rightarrow> Inl e
      | Inr (vol_path, g1) \<Rightarrow>
          let sigma_t = last vol_path in
          (case intvar_normalized vol_path of
             Inl e \<Rightarrow> Inl e
           | Inr I_t \<Rightarrow>
               let (Z, g2) = standard_normal (nat (n_path self)) g1 in
               if vov self = 0 then Inl ZeroDivisionError
               else
                 let s_t = map2 (\<lambda>x i. (1 / vov self) * (x - 1.0)
                                         - 0.5 * sigma self * rho self * texp * i) sigma_t I_t;
                     s_t = map (\<lambda>s. exp (rho self * sigma self * s)) s_t;
                     vol = map (\<lambda>i. sigma self * sqrt ((1 - (rho self)\<^sup>2) * i)) I_t;
                     volt = map (\<lambda>v. v * sqrt texp) vol;
                     S_t = map2 (\<lambda>s (v, z). s * spot * exp (v * (z - v / 2))) s_t (zip volt Z);
                     df = exp (- intr self * texp)
                 in Inr (map (\<lambda>K. df * mean (map (\<lambda>S. max (cp * (S - K)) 0.0) S_t)) strike,
                         g2)))"

text \<open>
  \<^verbatim>\<open>ModelNormMC.price\<close>. \<open>Z\<close> is drawn twice; the first draw is overwritten before
  it is used. \<open>self.rho / self.vov\<close> raises when \<open>vov\<close> is zero.
\<close>

definition ModelNormMC_price ::
  "config \<Rightarrow> rng \<Rightarrow> real list \<Rightarrow> real \<Rightarrow> real \<Rightarrow> real \<Rightarrow> (real list \<times> rng) result" where
  "ModelNormMC_price self g strike spot texp cp =
     (case sigma_path self g texp of
        Inl e \<Rightarrow> Inl e
      | Inr (vol_path, g1) \<Rightarrow>
          let sigma_t = last vol_path in
          (case intvar_normalized vol_path of
             Inl e \<Rightarrow> Inl e
           | Inr I_t \<Rightarrow>
               let df = exp (- intr self * texp);
                   (Z0, g2) = standard_normal (nat (n_path self)) g1
               in
               if vov self = 0 then Inl ZeroDivisionError
               else
                 let s_t = map (\<lambda>x. (rho self / vov self) * (x - 1) * sigma self) sigma_t;
                     (Z, g3) = standard_normal (length sigma_t) g2;
                     vol = map (\<lambda>i. sigma self * sqrt ((1 - (rho self)\<^sup>2) * i)) I_t;
                     volt = map (\<lambda>v. v * sqrt texp) vol;
                     S_t = map2 (\<lambda>s (v, z). s + spot / df + v * z) s_t (zip volt Z)
                 in Inr (map (\<lambda>K. df * mean (map (\<lambda>S. max (cp * (S - K)) 0.0) S_t)) strike,
                         g3)))"

text \<open>
  \<^verbatim>\<open>ModelBsmCondMC.price\<close>. The equivalent volatility and the discount factor are
  computed before the division by \<open>vov\<close>; the pricer comes from \<open>base_model(vol)\<close>.
\<close>

definition ModelBsmCondMC_price ::
  "pyfeng \<Rightarrow> config \<Rightarrow> rng \<Rightarrow> real list \<Rightarrow> real \<Rightarrow> real \<Rightarrow> real \<Rightarrow> (real list \<times> rng) result" where
  "ModelBsmCondMC_price lib self g strike spot texp cp =
     (case sigma_path self g texp of
        Inl e \<Rightarrow> Inl e
      | Inr (vol_path, g1) \<Rightarrow>
          let sigma_t = last vol_path in
          (case intvar_normalized vol_path of
             Inl e \<Rightarrow> Inl e
           | Inr I_t \<Rightarrow>
               let vol = map (\<lambda>i. sigma self * sqrt ((1 - (rho self)\<^sup>2) * i)) I_t;
                   volt = map (\<lambda>v. v * sqrt texp) vol;
                   df = exp (- intr self * texp)
               in
               if vov self = 0 then Inl ZeroDivisionError
               else
                 let s_t = map2 (\<lambda>x i. (1 / vov self) * (x - 1.0)
                                         - 0.5 * sigma self * rho self * texp * i) sigma_t I_t;
                     s_t = map (\<lambda>s. exp (rho self * sigma self * s)) s_t;
                     c_f_spot = map (\<lambda>s. s * spot / df) s_t;
                     (Z, g2) = standard_normal (nat (n_path self)) g1;
                     spot_equiv = map2 (\<lambda>c (v, z). c * exp (v * (z - v / 2))) c_f_spot (zip volt Z)
                 in
                 (case base_model self (Some (Array vol)) of
                    Inl e \<Rightarrow> Inl e
                  | Inr m \<Rightarrow>
                      Inr (map mean (pricer_price lib m strike spot_equiv texp cp), g2))))"

text \<open>\<^verbatim>\<open>ModelNormCondMC.price\<close>. Neither \<open>vov\<close> nor \<open>rho\<close> enters the terminal spot.\<close>

definition ModelNormCondMC_price ::
  "pyfeng \<Rightarrow> config \<Rightarrow> rng \<Rightarrow> real list \<Rightarrow> real \<Rightarrow> real \<Rightarrow> real \<Rightarrow> (real list \<times> rng) result" where
  "ModelNormCondMC_price lib self g strike spot texp cp =
     (case sigma_path self g texp of
        Inl e \<Rightarrow> Inl e
      | Inr (vol_path, g1) \<Rightarrow>
          let sigma_t = last vol_path in
          (case intvar_normalized vol_path of
             Inl e \<Rightarrow> Inl e
           | Inr I_t \<Rightarrow>
               let vol = map (\<lambda>i. sigma self * sqrt ((1 - (rho self)\<^sup>2) * i)) I_t;
                   (Z, g2) = standard_normal (nat (n_path self)) g1;
                   S_T = map2 (\<lambda>x (i, z). spot + x * sqrt i + x * sqrt texp * z) sigma_t (zip I_t Z)
               in
               (case base_model self (Some (Array vol)) of
                  Inl e \<Rightarrow> Inl e
                | Inr m \<Rightarrow> Inr (map mean (pricer_price lib m strike S_T texp cp), g2))))"

text \<open>The class of the model object decides which \<open>price\<close> a call reaches.\<close>

datatype model_class = BsmMC | NormMC | BsmCondMC | NormCondMC

fun price ::
  "pyfeng \<Rightarrow> model_class \<Rightarrow> config \<Rightarrow> rng \<Rightarrow> real list \<Rightarrow> real \<Rightarrow> real \<Rightarrow> real
     \<Rightarrow> (real list \<times> rng) result" where
  "price lib BsmMC self g strike spot texp cp = ModelBsmMC_price self g strike spot texp cp"
| "price lib NormMC self g strike spot texp cp = ModelNormMC_price self g strike spot texp cp"
| "price lib BsmCondMC self g strike spot texp cp =
     ModelBsmCondMC_price lib self g strike spot texp cp"
| "price lib NormCondMC self g strike spot texp cp =
     ModelNormCondMC_price lib self g strike spot texp cp"

text \<open>\<^verbatim>\<open>ModelABC.vol_smile\<close>: the price with \<open>cp = 1\<close>, then the implied volatility.\<close>

definition vol_smile ::
  "pyfeng \<Rightarrow> model_class \<Rightarrow> config \<Rightarrow> rng \<Rightarrow> real list \<Rightarrow> real \<Rightarrow> real
     \<Rightarrow> (real list \<times> rng) result" where
  "vol_smile lib cls self g strike spot texp =
     (case price lib cls self g strike spot texp 1 of
        Inl e \<Rightarrow> Inl e
      | Inr (p, g') \<Rightarrow>
          (case base_model self None of
             Inl e \<Rightarrow> Inl e
           | Inr m \<Rightarrow> Inr (pricer_impvol lib m p strike spot texp 1, g')))"

subsection \<open>The division by \<open>vov\<close> in the correlation-shift term\<close>

text \<open>
  A configuration value is a Python number or a numpy scalar. Dividing by a zero
  Python number raises \<open>ZeroDivisionError\<close>; dividing by a zero numpy scalar gives
  \<open>inf\<close> or \<open>nan\<close> (with a warning) and the run goes on. \<open>kind\<close> is that of the
  operands (numpy as soon as one of them is a numpy scalar).
\<close>

datatype number_kind = PythonNumber | NumpyScalar

datatype quotient = Finite real | NonFinite

definition divide_by :: "number_kind \<Rightarrow> real \<Rightarrow> real \<Rightarrow> quotient result" where
  "divide_by k a b =
     (if b \<noteq> 0 then Inr (Finite (a / b))
      else (case k of PythonNumber \<Rightarrow> Inl ZeroDivisionError | NumpyScalar \<Rightarrow> Inr NonFinite))"

text \<open>
  The statements of \<open>price\<close> up to the division by \<open>vov\<close> in the correlation-shift
  term: the volatility path and the integrated variance are computed first (lines
  116-118, 146-148, 179-181), then \<open>1 / self.vov\<close> (lines 122 and 187) or
  \<open>self.rho / self.vov\<close> (line 154) is evaluated. \<open>ModelNormCondMC.price\<close> (lines
  204-217) has no such division.
\<close>

definition shift_division ::
  "model_class \<Rightarrow> number_kind \<Rightarrow> config \<Rightarrow> rng \<Rightarrow> real \<Rightarrow> quotient option result" where
  "shift_division cls k self g texp =
     (case sigma_path self g texp of
        Inl e \<Rightarrow> Inl e
      | Inr (vol_path, g1) \<Rightarrow>
          (case intvar_normalized vol_path of
             Inl e \<Rightarrow> Inl e
           | Inr I_t \<Rightarrow>
               (case cls of
                  BsmMC \<Rightarrow> map_sum id Some (divide_by k 1 (vov self))
                | NormMC \<Rightarrow> map_sum id Some (divide_by k (rho self) (vov self))
                | BsmCondMC \<Rightarrow> map_sum id Some (divide_by k 1 (vov self))
                | NormCondMC \<Rightarrow> Inr None)))"

subsection \<open>The trapezoidal weights as the specification words them\<close>

text \<open>
  The weight of grid point \<open>i\<close> of \<open>n\<close>: one half at the two endpoints, one at the
  interior points, divided by the sum of these numbers so that the weights sum to one.
\<close>

definition trapz_raw :: "nat \<Rightarrow> nat \<Rightarrow> real" where
  "trapz_raw n i = (if i = 0 \<or> i = n - 1 then 1 / 2 else 1)"

definition trapz_weight :: "nat \<Rightarrow> nat \<Rightarrow> real" where
  "trapz_weight n i = trapz_raw n i / (\<Sum>k = 0..<n. trapz_raw n k)"

subsection \<open>The pricing formulas as the specification words them\<close>

text \<open>
  Per path: the correlation shift \<open>s\<close>, the residual (equivalent) volatility, the
  martingale-corrected log-normal step, the terminal spot of the direct log-normal
  simulator, the equivalent spot of the conditional log-normal simulator, the terminal
  spot of the conditional normal simulator, the average payoff over the paths and the
  average closed-form price over the paths. The closed-form price is the normal one for
  \<open>beta = 0\<close> and the log-normal one for \<open>beta = 1\<close>.
\<close>

definition corr_shift :: "config \<Rightarrow> real \<Rightarrow> real \<Rightarrow> real \<Rightarrow> real" where
  "corr_shift self texp sigma_T I_T =
     (1 / vov self) * (sigma_T - 1) - 0.5 * sigma self * rho self * texp * I_T"

definition residual_vol :: "config \<Rightarrow> real \<Rightarrow> real" where
  "residual_vol self I_T = sigma self * sqrt ((1 - (rho self)\<^sup>2) * I_T)"

definition lognormal_step :: "real \<Rightarrow> real \<Rightarrow> real" where
  "lognormal_step w z = exp (w * (z - w / 2))"

definition bsm_terminal_spot :: "config \<Rightarrow> real \<Rightarrow> real \<Rightarrow> real \<Rightarrow> real \<Rightarrow> real \<Rightarrow> real" where
  "bsm_terminal_spot self spot texp sigma_T I_T z =
     exp (rho self * sigma self * corr_shift self texp sigma_T I_T) * spot *
     lognormal_step (residual_vol self I_T * sqrt texp) z"

definition payoff_average :: "real \<Rightarrow> nat \<Rightarrow> (nat \<Rightarrow> real) \<Rightarrow> real \<Rightarrow> real" where
  "payoff_average cp n S K = (\<Sum>j = 0..<n. max (cp * (S j - K)) 0) / real n"

definition bsm_equiv_spot :: "config \<Rightarrow> real \<Rightarrow> real \<Rightarrow> real \<Rightarrow> real \<Rightarrow> real \<Rightarrow> real" where
  "bsm_equiv_spot self spot texp sigma_T I_T z =
     exp (rho self * sigma self * corr_shift self texp sigma_T I_T) * spot / exp (- intr self * texp) *
     lognormal_step (residual_vol self I_T * sqrt texp) z"

definition norm_cond_spot :: "real \<Rightarrow> real \<Rightarrow> real \<Rightarrow> real \<Rightarrow> real \<Rightarrow> real" where
  "norm_cond_spot spot texp sigma_T I_T z = spot + sigma_T * sqrt I_T + sigma_T * sqrt texp * z"

definition closed_form ::
  "pyfeng \<Rightarrow> config \<Rightarrow> real \<Rightarrow> real \<Rightarrow> real \<Rightarrow> real \<Rightarrow> real \<Rightarrow> real" where
  "closed_form lib self v K S T cp =
     (if beta self = 0 then norm_price lib v (intr self) K S T cp
      else bsm_price lib v (intr self) K S T cp)"

definition closed_form_average ::
  "pyfeng \<Rightarrow> config \<Rightarrow> real \<Rightarrow> real \<Rightarrow> nat \<Rightarrow> (nat \<Rightarrow> real) \<Rightarrow> (nat \<Rightarrow> real) \<Rightarrow> real \<Rightarrow> real" where
  "closed_form_average lib self texp cp n vol S K =
     (\<Sum>j = 0..<n. closed_form lib self (vol j) K (S j) texp cp) / real n"

subsection \<open>Monotonicity in the strike as the specification words it\<close>

text \<open>
  A price vector is monotone in the strike when it is as long as the strike vector and,
  for any two strikes \<open>K_i \<le> K_j\<close>, the price at \<open>K_j\<close> is at most the price at
  \<open>K_i\<close> for calls (\<open>cp = 1\<close>) and at least it for puts (\<open>cp = -1\<close>). The closed
  forms of pyfeng are monotone when each of them is so in its strike argument.
\<close>

definition monotone_in_strike :: "real \<Rightarrow> real list \<Rightarrow> real list \<Rightarrow> bool" where
  "monotone_in_strike cp strike ps \<longleftrightarrow>
     length ps = length strike \<and>
     (\<forall>i < length strike. \<forall>j < length strike. strike ! i \<le> strike ! j \<longrightarrow>
        (cp = 1 \<longrightarrow> ps ! j \<le> ps ! i) \<and> (cp = - 1 \<longrightarrow> ps ! i \<le> ps ! j))"

definition closed_form_monotone :: "pyfeng \<Rightarrow> bool" where
  "closed_form_monotone lib \<longleftrightarrow>
     (\<forall>v r K K' S T. K \<le> K' \<longrightarrow>
        bsm_price lib v r K' S T 1 \<le> bsm_price lib v r K S T 1 \<and>
        bsm_price lib v r K S T (- 1) \<le> bsm_price lib v r K' S T (- 1) \<and>
        norm_price lib v r K' S T 1 \<le> norm_price lib v r K S T 1 \<and>
        norm_price lib v r K S T (- 1) \<le> norm_price lib v r K' S T (- 1))"

subsection \<open>Sample inputs\<close>

text \<open>A realization of the random source in which every draw is zero.\<close>

definition zero_draws :: rng where
  "zero_draws = (\<lambda>k. 0)"

text \<open>
  A stand-in for the pyfeng formulas where a closed statement needs some library: the
  undiscounted intrinsic value as price, zero as implied volatility.
\<close>

definition intrinsic_lib :: pyfeng where
  "intrinsic_lib =
     \<lparr>bsm_price = (\<lambda>v r K S T cp. max (cp * (S - K)) 0),
      norm_price = (\<lambda>v r K S T cp. max (cp * (S - K)) 0),
      bsm_impvol = (\<lambda>r p K S T cp. 0),
      norm_impvol = (\<lambda>r p K S T cp. 0)\<rparr>"

section \<open>Properties\<close>

subsection \<open>The time grid and the volatility path\<close>

lemma n_dt_pos: "0 < texp \<Longrightarrow> 0 < d \<Longrightarrow> 1 \<le> \<lceil>texp / d :: real\<rceil>"
proof -
  assume "0 < texp" "0 < d"
  then have "0 < texp / d" by simp
  then have "0 < \<lceil>texp / d\<rceil>" by (simp only: ceiling_less_iff less_ceiling_iff of_int_0)
  then show ?thesis by linarith
qed


lemma tobs_grid_last: "1 \<le> n \<Longrightarrow> tobs_grid n texp \<noteq> [] \<and> last (tobs_grid n texp) = texp"
proof -
  assume n: "1 \<le> n"
  then have u: "[1..n] = [1..n - 1] @ [n]" by (rule upto_rec2)
  show ?thesis unfolding tobs_grid_def u using n by simp
qed



lemma cumsum_from_rows:
  "length acc = c \<Longrightarrow> \<forall>r \<in> set rs. length r = c \<Longrightarrow> \<forall>r \<in> set (cumsum_from acc rs). length r = c"
proof (induction rs arbitrary: acc)
  case Nil
  show ?case by simp
next
  case (Cons a rs)
  have la: "length a = c" using Cons.prems(2) by simp
  have l: "length (map2 (+) acc a) = c" by (simp add: la Cons.prems(1))
  have r: "\<forall>r\<in>set rs. length r = c" using Cons.prems(2) by simp
  have "\<forall>r \<in> set (cumsum_from (map2 (+) acc a) rs). length r = c" by (rule Cons.IH [OF l r])
  then show ?case using l by simp
qed


lemma cumsum_axis0_rows:
  "\<forall>r \<in> set rs. length r = c \<Longrightarrow> \<forall>r \<in> set (cumsum_axis0 rs). length r = c"
proof (cases rs)
  case Nil
  then show ?thesis by simp
next
  case (Cons a rs')
  assume h: "\<forall>r \<in> set rs. length r = c"
  have la: "length a = c" using h Cons by simp
  have r: "\<forall>r\<in>set rs'. length r = c" using h Cons by simp
  show ?thesis using cumsum_from_rows [OF la r] la Cons by simp
qed

lemma sigma_path_Inr:
  assumes "0 < texp" "0 < dt self" "0 \<le> n_path self"
  shows "sigma_path self g texp =
           Inr (replicate (nat (n_path self)) 1 #
                map2 (\<lambda>row t. map (\<lambda>z. exp (vov self * (z - vov self / 2 * t))) row)
                  (cumsum_axis0 (map (map (\<lambda>x. x * sqrt (texp / real_of_int \<lceil>texp / dt self\<rceil>)))
                     (fst (standard_normal2 (nat \<lceil>texp / dt self\<rceil>) (nat (n_path self)) g))))
                  (tobs_grid \<lceil>texp / dt self\<rceil> texp),
                snd (standard_normal2 (nat \<lceil>texp / dt self\<rceil>) (nat (n_path self)) g))"
proof -
  have n: "1 \<le> \<lceil>texp / dt self\<rceil>" using assms by (simp add: n_dt_pos)
  then have n0: "\<lceil>texp / dt self\<rceil> \<noteq> 0" by linarith
  note t = tobs_grid_last [OF n, of texp]
  have d0: "dt self \<noteq> 0" using assms(2) by simp
  have np: "\<not> n_path self < 0" using assms(3) by simp
  have t1: "tobs_grid \<lceil>texp / dt self\<rceil> texp \<noteq> []"
    and t2: "last (tobs_grid \<lceil>texp / dt self\<rceil> texp) = texp" using t by blast+
  show ?thesis
    unfolding sigma_path_def Let_def
    by (simp only: d0 n0 t1 t2 np if_False simp_thms case_prod_beta)
qed


lemma standard_normal2_rows:
  "\<forall>r \<in> set (fst (standard_normal2 n c g)). length r = c"
  by (simp add: standard_normal2_def)


lemma map2_rows_length:
  assumes "\<forall>r \<in> set Z. length r = c"
  shows "\<forall>r \<in> set (map2 (\<lambda>row t. map (f t) row) Z T). length r = c"
proof
  fix r assume "r \<in> set (map2 (\<lambda>row t. map (f t) row) Z T)"
  then obtain row t where rt: "(row, t) \<in> set (zip Z T)" and r: "r = map (f t) row" by auto
  from rt have "row \<in> set Z" by (rule set_zip_leftD)
  with assms r show "length r = c" by simp
qed


text \<open>
  C10: for \<open>texp > 0\<close> and \<open>dt > 0\<close> the assertion \<open>texp == tobs[-1]\<close> of
  \<open>sigma_path\<close> never fails: the grid is not empty, its last point is
  \<open>n_dt / n_dt * texp = texp\<close>, and \<open>sigma_path\<close> does not end in \<open>AssertionError\<close>.
\<close>

theorem sigma_path_assertion_holds:
  assumes "0 < texp" "0 < dt self"
  shows "tobs_grid \<lceil>texp / dt self\<rceil> texp \<noteq> [] \<and>
         last (tobs_grid \<lceil>texp / dt self\<rceil> texp) = texp \<and>
         sigma_path self g texp \<noteq> Inl AssertionError"
proof -
  have n: "1 \<le> \<lceil>texp / dt self\<rceil>" using assms by (simp add: n_dt_pos)
  then have n0: "\<lceil>texp / dt self\<rceil> \<noteq> 0" by linarith
  have d0: "dt self \<noteq> 0" using assms(2) by simp
  have t1: "tobs_grid \<lceil>texp / dt self\<rceil> texp \<noteq> []"
    and t2: "last (tobs_grid \<lceil>texp / dt self\<rceil> texp) = texp"
    using tobs_grid_last [OF n, of texp] by blast+
  have "sigma_path self g texp \<noteq> Inl AssertionError"
  proof (cases "n_path self < 0")
    case True
    then show ?thesis
      unfolding sigma_path_def Let_def
      by (simp only: d0 n0 t1 t2 if_False if_True simp_thms) simp
  next
    case False
    then have "0 \<le> n_path self" by simp
    from sigma_path_Inr [OF assms this] show ?thesis by simp
  qed
  with t1 t2 show ?thesis by blast
qed

theorem sigma_path_assertion_holds_witness:
  "tobs_grid 10 1 \<noteq> [] \<and> last (tobs_grid 10 1) = 1 \<and>
   sigma_path (ModelABC_init 0.2 0.5 0 1 0) zero_draws 1 \<noteq> Inl AssertionError"
  using sigma_path_assertion_holds [of 1 "ModelABC_init 0.2 0.5 0 1 0" zero_draws]
  by (simp add: ModelABC_init_def)




subsection \<open>base_model\<close>

text \<open>
  C6: \<open>base_model\<close> returns the normal pricer built with the volatility and the rate
  when \<open>beta = 0\<close>, the log-normal pricer built with them when \<open>beta = 1\<close>, and raises
  \<open>ValueError\<close> for every other \<open>beta\<close>; the volatility is the argument, or
  \<open>self.sigma\<close> when no argument is given.
\<close>

theorem base_model_selects:
  "(beta self = 0 \<longrightarrow>
      base_model self (Some v) = Inr (Norm v (intr self)) \<and>
      base_model self None = Inr (Norm (Scalar (sigma self)) (intr self))) \<and>
   (beta self = 1 \<longrightarrow>
      base_model self (Some v) = Inr (Bsm v (intr self)) \<and>
      base_model self None = Inr (Bsm (Scalar (sigma self)) (intr self))) \<and>
   (beta self \<noteq> 0 \<and> beta self \<noteq> 1 \<longrightarrow> base_model self a = Inl ValueError)"
  by (simp add: base_model_def)

theorem base_model_selects_witness:
  "base_model (ModelABC_init 0.2 0.5 0 0 0.01) (Some (Array [0.3])) = Inr (Norm (Array [0.3]) 0.01) \<and>
   base_model (ModelABC_init 0.2 0.5 0 1 0.01) None = Inr (Bsm (Scalar 0.2) 0.01) \<and>
   base_model (ModelABC_init 0.2 0.5 0 0.5 0.01) None = Inl ValueError"
  using base_model_selects [of "ModelABC_init 0.2 0.5 0 0 0.01" "Array [0.3]"]
        base_model_selects [of "ModelABC_init 0.2 0.5 0 1 0.01"]
        base_model_selects [of "ModelABC_init 0.2 0.5 0 0.5 0.01" _ None]
  by (simp add: ModelABC_init_def)

subsection \<open>The normalized integrated variance\<close>

lemma raw_weights_nth:
  assumes "i < n"
  shows "((replicate n (1::real))[0 := 0.5, n - 1 := 0.5]) ! i = trapz_raw n i"
proof -
  have "((replicate n (1::real))[0 := 0.5, n - 1 := 0.5]) ! i
          = (if n - 1 = i then 0.5 else ((replicate n (1::real))[0 := 0.5]) ! i)"
    using assms by (simp add: nth_list_update)
  also have "\<dots> = (if n - 1 = i then 0.5 else if 0 = i then 0.5 else 1)"
    using assms by (simp add: nth_list_update)
  also have "\<dots> = trapz_raw n i" by (auto simp: trapz_raw_def)
  finally show ?thesis .
qed

lemma raw_weights_sum:
  "sum_list ((replicate n (1::real))[0 := 0.5, n - 1 := 0.5]) = (\<Sum>k = 0..<n. trapz_raw n k)"
proof -
  have "sum_list ((replicate n (1::real))[0 := 0.5, n - 1 := 0.5])
          = (\<Sum>k = 0..<n. ((replicate n (1::real))[0 := 0.5, n - 1 := 0.5]) ! k)"
    by (simp add: sum_list_sum_nth)
  also have "\<dots> = (\<Sum>k = 0..<n. trapz_raw n k)"
    by (rule sum.cong [OF refl]) (simp only: atLeastLessThan_iff raw_weights_nth)
  finally show ?thesis .
qed




lemma sum_list_column:
  "sum_list (map (\<lambda>r. r ! j) M) = (\<Sum>i = 0..<length M. (M ! i ! j :: real))"
proof -
  have "sum_list (map (\<lambda>r. r ! j) M) = (\<Sum>i = 0..<length M. map (\<lambda>r. r ! j) M ! i)"
    by (simp only: sum_list_sum_nth length_map)
  also have "\<dots> = (\<Sum>i = 0..<length M. M ! i ! j)"
    by (rule sum.cong [OF refl]) (simp only: atLeastLessThan_iff nth_map)
  finally show ?thesis .
qed

lemma intvar_normalized_formula:
  assumes ne: "sp \<noteq> []" and rect: "\<forall>r \<in> set sp. length r = c"
  shows "intvar_normalized sp =
           Inr (map (\<lambda>j. \<Sum>i = 0..<length sp. trapz_weight (length sp) i * (sp ! i ! j)\<^sup>2) [0..<c])"
proof -
  let ?n = "length sp"
  let ?raw = "(replicate ?n (1::real))[0 := 0.5, ?n - 1 := 0.5]"
  let ?W = "map (\<lambda>w. w / sum_list ?raw) ?raw"
  let ?M = "map2 (\<lambda>w row. map (\<lambda>x. w * x\<^sup>2) row) ?W sp"
  have n: "0 < ?n" using ne by simp
  have hd: "length (hd sp) = c" using ne rect by (cases sp) simp_all
  have lM: "length ?M = ?n" by simp
  have W: "?W ! i = trapz_weight ?n i" if "i < ?n" for i
    using that
    by (simp only: nth_map length_list_update length_replicate raw_weights_nth raw_weights_sum
          trapz_weight_def)
  have M: "?M ! i ! j = trapz_weight ?n i * (sp ! i ! j)\<^sup>2" if "i < ?n" "j < c" for i j
  proof -
    have "sp ! i \<in> set sp" using that(1) by simp
    then have "j < length (sp ! i)" using rect that(2) by simp
    then show ?thesis using that(1) W [OF that(1)] by simp
  qed
  have col: "sum_list (map (\<lambda>r. r ! j) ?M) = (\<Sum>i = 0..<?n. trapz_weight ?n i * (sp ! i ! j)\<^sup>2)"
    if "j < c" for j
  proof -
    have "sum_list (map (\<lambda>r. r ! j) ?M) = (\<Sum>i = 0..<?n. ?M ! i ! j)"
      using sum_list_column [of j ?M] by (simp only: lM)
    also have "\<dots> = (\<Sum>i = 0..<?n. trapz_weight ?n i * (sp ! i ! j)\<^sup>2)"
      by (rule sum.cong [OF refl]) (simp only: atLeastLessThan_iff M that)
    finally show ?thesis .
  qed
  have "intvar_normalized sp = Inr (sum_axis0 c ?M)"
    unfolding intvar_normalized_def Let_def using n hd by simp
  also have "sum_axis0 c ?M = map (\<lambda>j. \<Sum>i = 0..<?n. trapz_weight ?n i * (sp ! i ! j)\<^sup>2) [0..<c]"
    unfolding sum_axis0_def by (rule map_cong) (simp_all only: col set_upt atLeastLessThan_iff)
  finally show ?thesis .
qed




subsection \<open>The simulators when \<open>vov\<close> is zero\<close>

lemma sigma_path_rect:
  assumes "0 < texp" "0 < dt self" "0 \<le> n_path self"
  shows "\<exists>vp. sigma_path self g texp =
                Inr (vp, (\<lambda>k. g (k + nat \<lceil>texp / dt self\<rceil> * nat (n_path self)))) \<and>
              vp \<noteq> [] \<and> (\<forall>r \<in> set vp. length r = nat (n_path self))"
proof -
  let ?n = "\<lceil>texp / dt self\<rceil>"
  let ?c = "nat (n_path self)"
  let ?N = "map (map (\<lambda>x. x * sqrt (texp / real_of_int ?n))) (fst (standard_normal2 (nat ?n) ?c g))"
  let ?rows = "map2 (\<lambda>row t. map (\<lambda>z. exp (vov self * (z - vov self / 2 * t))) row)
                 (cumsum_axis0 ?N) (tobs_grid ?n texp)"
  have eq: "sigma_path self g texp =
              Inr (replicate ?c 1 # ?rows, snd (standard_normal2 (nat ?n) ?c g))"
    by (rule sigma_path_Inr [OF assms])
  have g': "snd (standard_normal2 (nat ?n) ?c g) = (\<lambda>k. g (k + nat ?n * ?c))"
    by (simp add: standard_normal2_def)
  have rN: "\<forall>r \<in> set ?N. length r = ?c" using standard_normal2_rows [of "nat ?n" ?c g] by simp
  have rows: "\<forall>r \<in> set ?rows. length r = ?c"
    by (rule map2_rows_length [OF cumsum_axis0_rows [OF rN]])
  show ?thesis
    apply (rule exI [of _ "replicate ?c 1 # ?rows"])
    using eq g' rows by simp
qed

lemma path_and_intvar:
  assumes "0 < texp" "0 < dt self" "0 \<le> n_path self"
  shows "\<exists>vp I. sigma_path self g texp =
                  Inr (vp, (\<lambda>k. g (k + nat \<lceil>texp / dt self\<rceil> * nat (n_path self)))) \<and>
                intvar_normalized vp = Inr I \<and>
                length (last vp) = nat (n_path self) \<and> length I = nat (n_path self)"
proof -
  obtain vp where vp: "sigma_path self g texp =
                Inr (vp, (\<lambda>k. g (k + nat \<lceil>texp / dt self\<rceil> * nat (n_path self))))"
    and ne: "vp \<noteq> []" and rect: "\<forall>r \<in> set vp. length r = nat (n_path self)"
    using sigma_path_rect [OF assms, of g] by blast
  note f = intvar_normalized_formula [OF ne rect]
  have "last vp \<in> set vp" using ne by simp
  then have l: "length (last vp) = nat (n_path self)" using rect by blast
  show ?thesis
    apply (rule exI [of _ vp])
    apply (rule exI [of _ "map (\<lambda>j. \<Sum>i = 0..<length vp. trapz_weight (length vp) i * (vp ! i ! j)\<^sup>2)
                              [0..<nat (n_path self)]"])
    using vp f l by simp
qed

lemma ModelBsmMC_price_zero_vov:
  assumes "sigma_path self g texp = Inr (vp, g1)" "intvar_normalized vp = Inr I" "vov self = 0"
  shows "ModelBsmMC_price self g strike spot texp cp = Inl ZeroDivisionError"
  by (simp add: ModelBsmMC_price_def assms standard_normal_def)

lemma ModelNormMC_price_zero_vov:
  assumes "sigma_path self g texp = Inr (vp, g1)" "intvar_normalized vp = Inr I" "vov self = 0"
  shows "ModelNormMC_price self g strike spot texp cp = Inl ZeroDivisionError"
  by (simp add: ModelNormMC_price_def assms standard_normal_def)

lemma ModelBsmCondMC_price_zero_vov:
  assumes "sigma_path self g texp = Inr (vp, g1)" "intvar_normalized vp = Inr I" "vov self = 0"
  shows "ModelBsmCondMC_price lib self g strike spot texp cp = Inl ZeroDivisionError"
  by (simp add: ModelBsmCondMC_price_def assms)

lemma ModelNormCondMC_price_no_division:
  assumes "sigma_path self g texp = Inr (vp, g1)" "intvar_normalized vp = Inr I"
  shows "ModelNormCondMC_price lib self g strike spot texp cp \<noteq> Inl ZeroDivisionError"
  by (simp add: ModelNormCondMC_price_def assms standard_normal_def base_model_def Let_def)



lemma price_raises_with_division:
  assumes "shift_division cls PythonNumber self g texp = Inl e"
  shows "price lib cls self g strike spot texp cp = Inl e"
  using assms
  by (cases cls)
     (auto simp add: shift_division_def divide_by_def ModelBsmMC_price_def ModelNormMC_price_def
        ModelBsmCondMC_price_def ModelNormCondMC_price_def standard_normal_def Let_def
        split: sum.splits if_splits prod.splits)




text \<open>
  C7 on the code: the model built with the defaults of \<open>__init__\<close> has \<open>vov = 0\<close> and
  \<open>rho = 0\<close>; \<open>vol_smile\<close> calls \<open>price\<close> first, which raises \<open>ZeroDivisionError\<close>
  in \<open>ModelBsmMC\<close>, \<open>ModelNormMC\<close> and \<open>ModelBsmCondMC\<close>, so no implied volatility is
  returned and \<open>sigma\<close> is not recovered.
\<close>

theorem vol_smile_default_vov_raises:
  "vol_smile lib BsmMC (ModelABC_init_default 0.2) g [90, 100, 110] 100 1 = Inl ZeroDivisionError \<and>
   vol_smile lib NormMC (ModelABC_init_default 0.2) g [90, 100, 110] 100 1 = Inl ZeroDivisionError \<and>
   vol_smile lib BsmCondMC (ModelABC_init_default 0.2) g [90, 100, 110] 100 1 = Inl ZeroDivisionError"
proof -
  let ?cfg = "ModelABC_init_default 0.2"
  have h: "(0::real) < 1" "0 < dt ?cfg" "0 \<le> n_path ?cfg" "vov ?cfg = 0"
    by (simp_all add: ModelABC_init_default_def ModelABC_init_def)
  obtain vp g1 I where p: "sigma_path ?cfg g 1 = Inr (vp, g1)"
    and i: "intvar_normalized vp = Inr I"
    using path_and_intvar [OF h(1,2,3), of g] by blast
  show ?thesis
    unfolding vol_smile_def price.simps
    by (simp only: ModelBsmMC_price_zero_vov [OF p i h(4)] ModelNormMC_price_zero_vov [OF p i h(4)]
          ModelBsmCondMC_price_zero_vov [OF p i h(4)] sum.case simp_thms)
qed

subsection \<open>The direct log-normal simulator\<close>

lemma mean_map_upt: "mean (map f [0..<n]) = (\<Sum>j = 0..<n. f j) / real n"
  by (simp add: mean_def interv_sum_list_conv_sum_set_nat)

lemma bsm_spots_eq:
  assumes "length sT = c" "length I = c"
  shows "map2 (\<lambda>s (v, z). s * spot * exp (v * (z - v / 2)))
           (map (\<lambda>s. exp (rho self * sigma self * s))
              (map2 (\<lambda>x i. (1 / vov self) * (x - 1.0) - 0.5 * sigma self * rho self * texp * i) sT I))
           (zip (map (\<lambda>v. v * sqrt texp) (map (\<lambda>i. sigma self * sqrt ((1 - (rho self)\<^sup>2) * i)) I))
              (map g1 [0..<c]))
         = map (\<lambda>j. bsm_terminal_spot self spot texp (sT ! j) (I ! j) (g1 j)) [0..<c]"
  by (rule nth_equalityI)
     (simp_all add: assms bsm_terminal_spot_def corr_shift_def residual_vol_def lognormal_step_def)

lemma ModelBsmMC_price_eval:
  assumes p: "sigma_path self g texp = Inr (vp, g1)" and i: "intvar_normalized vp = Inr I"
    and v: "vov self \<noteq> 0" and l: "length (last vp) = nat (n_path self)" "length I = nat (n_path self)"
  shows "ModelBsmMC_price self g strike spot texp cp =
           Inr (map (\<lambda>K. exp (- intr self * texp) *
                        payoff_average cp (nat (n_path self))
                          (\<lambda>j. bsm_terminal_spot self spot texp (last vp ! j) (I ! j) (g1 j)) K) strike,
                (\<lambda>k. g1 (k + nat (n_path self))))"
proof -
  note S = bsm_spots_eq [OF l, of spot self texp g1]
  show ?thesis
    unfolding ModelBsmMC_price_def
    by (simp only: Let_def standard_normal_def p i sum.case prod.case v if_False S)
       (simp add: mean_def payoff_average_def interv_sum_list_conv_sum_set_nat comp_def)
qed


text \<open>
  C2: with \<open>vov > 0\<close> (and \<open>texp > 0\<close>, \<open>dt > 0\<close>, \<open>n_path > 0\<close>), for every realization
  \<open>g\<close> of the draws, \<open>ModelBsmMC.price\<close> returns, for every strike of the vector,
  \<open>exp(-intr * texp)\<close> times the average over the paths of \<open>max(cp * (S_T - K), 0)\<close>,
  where per path \<open>S_T\<close> is \<open>spot\<close> times \<open>exp(rho * sigma * s)\<close> times the log-normal step
  with the residual volatility scaled by \<open>sqrt(texp)\<close> and a draw \<open>g1 j\<close> taken after
  the draws of the volatility path.
\<close>

theorem ModelBsmMC_price_formula:
  assumes "0 < vov self" "0 < texp" "0 < dt self" "0 < n_path self"
  shows "\<exists>vp I g1. sigma_path self g texp = Inr (vp, g1) \<and> intvar_normalized vp = Inr I \<and>
           g1 = (\<lambda>k. g (k + nat \<lceil>texp / dt self\<rceil> * nat (n_path self))) \<and>
           ModelBsmMC_price self g strike spot texp cp =
             Inr (map (\<lambda>K. exp (- intr self * texp) *
                          payoff_average cp (nat (n_path self))
                            (\<lambda>j. bsm_terminal_spot self spot texp (last vp ! j) (I ! j) (g1 j)) K)
                    strike,
                  (\<lambda>k. g1 (k + nat (n_path self))))"
proof -
  have np: "0 \<le> n_path self" and v: "vov self \<noteq> 0" using assms by simp_all
  obtain vp I where p: "sigma_path self g texp =
        Inr (vp, (\<lambda>k. g (k + nat \<lceil>texp / dt self\<rceil> * nat (n_path self))))"
    and i: "intvar_normalized vp = Inr I"
    and l: "length (last vp) = nat (n_path self)" "length I = nat (n_path self)"
    using path_and_intvar [OF assms(2,3) np, of g] by blast
  from ModelBsmMC_price_eval [OF p i v l] p i show ?thesis by blast
qed

theorem ModelBsmMC_price_formula_witness:
  "\<exists>ps g'. ModelBsmMC_price (ModelABC_init 0.2 0.5 0.3 1 0) zero_draws [90, 100, 110] 100 1 1
              = Inr (ps, g') \<and> length ps = 3"
proof -
  let ?cfg = "ModelABC_init 0.2 0.5 0.3 1 0"
  have h: "0 < vov ?cfg" "(0::real) < 1" "0 < dt ?cfg" "0 < n_path ?cfg"
    by (simp_all add: ModelABC_init_def)
  from ModelBsmMC_price_formula [OF h, of zero_draws "[90, 100, 110]" 100 1]
  show ?thesis by auto
qed

subsection \<open>The conditional simulators\<close>

lemma bsm_equiv_spots_eq:
  assumes "length sT = c" "length I = c"
  shows "map2 (\<lambda>c (v, z). c * exp (v * (z - v / 2)))
           (map (\<lambda>s. s * spot / exp (- intr self * texp))
              (map (\<lambda>s. exp (rho self * sigma self * s))
                 (map2 (\<lambda>x i. (1 / vov self) * (x - 1.0) - 0.5 * sigma self * rho self * texp * i) sT I)))
           (zip (map (\<lambda>v. v * sqrt texp) (map (\<lambda>i. sigma self * sqrt ((1 - (rho self)\<^sup>2) * i)) I))
              (map g1 [0..<c]))
         = map (\<lambda>j. bsm_equiv_spot self spot texp (sT ! j) (I ! j) (g1 j)) [0..<c]"
  by (rule nth_equalityI)
     (simp_all add: assms bsm_equiv_spot_def corr_shift_def residual_vol_def lognormal_step_def)

lemma norm_cond_spots_eq:
  assumes "length sT = c" "length I = c"
  shows "map2 (\<lambda>x (i, z). spot + x * sqrt i + x * sqrt texp * z) sT (zip I (map g1 [0..<c]))
         = map (\<lambda>j. norm_cond_spot spot texp (sT ! j) (I ! j) (g1 j)) [0..<c]"
  by (rule nth_equalityI) (simp_all add: assms norm_cond_spot_def)

lemma pricer_average:
  assumes b: "beta self = 0 \<or> beta self = 1" and "length I = c"
  shows "(case base_model self (Some (Array (map (\<lambda>i. sigma self * sqrt ((1 - (rho self)\<^sup>2) * i)) I))) of
            Inl e \<Rightarrow> Inl e
          | Inr m \<Rightarrow> Inr (map mean (pricer_price lib m strike (map S [0..<c]) texp cp), g2))
         = Inr (map (closed_form_average lib self texp cp c (\<lambda>j. residual_vol self (I ! j)) S) strike, g2)"
proof -
  have m: "mean (map f [0..<c]) = (\<Sum>j = 0..<c. f j) / real c" for f :: "nat \<Rightarrow> real"
    by (rule mean_map_upt)
  from b show ?thesis
  proof
    assume b0: "beta self = 0"
    show ?thesis
      by (auto simp add: base_model_def b0 closed_form_average_def closed_form_def comp_def m
            residual_vol_def assms(2) intro!: sum.cong)
  next
    assume b1: "beta self = 1"
    show ?thesis
      by (auto simp add: base_model_def b1 closed_form_average_def closed_form_def comp_def m
            residual_vol_def assms(2) intro!: sum.cong)
  qed
qed

lemma ModelBsmCondMC_price_eval:
  assumes p: "sigma_path self g texp = Inr (vp, g1)" and i: "intvar_normalized vp = Inr I"
    and v: "vov self \<noteq> 0" and l: "length (last vp) = nat (n_path self)" "length I = nat (n_path self)"
    and b: "beta self = 0 \<or> beta self = 1"
  shows "ModelBsmCondMC_price lib self g strike spot texp cp =
           Inr (map (closed_form_average lib self texp cp (nat (n_path self))
                       (\<lambda>j. residual_vol self (I ! j))
                       (\<lambda>j. bsm_equiv_spot self spot texp (last vp ! j) (I ! j) (g1 j))) strike,
                (\<lambda>k. g1 (k + nat (n_path self))))"
proof -
  note S = bsm_equiv_spots_eq [OF l, of spot self texp g1]
  note P = pricer_average [OF b l(2)]
  show ?thesis
    unfolding ModelBsmCondMC_price_def
    by (simp only: Let_def standard_normal_def p i sum.case prod.case v if_False S P)
qed

lemma ModelNormCondMC_price_eval:
  assumes p: "sigma_path self g texp = Inr (vp, g1)" and i: "intvar_normalized vp = Inr I"
    and l: "length (last vp) = nat (n_path self)" "length I = nat (n_path self)"
    and b: "beta self = 0 \<or> beta self = 1"
  shows "ModelNormCondMC_price lib self g strike spot texp cp =
           Inr (map (closed_form_average lib self texp cp (nat (n_path self))
                       (\<lambda>j. residual_vol self (I ! j))
                       (\<lambda>j. norm_cond_spot spot texp (last vp ! j) (I ! j) (g1 j))) strike,
                (\<lambda>k. g1 (k + nat (n_path self))))"
proof -
  note S = norm_cond_spots_eq [OF l, of spot texp g1]
  note P = pricer_average [OF b l(2)]
  show ?thesis
    unfolding ModelNormCondMC_price_def
    by (simp only: Let_def standard_normal_def p i sum.case prod.case S P)
qed

text \<open>
  C3: with \<open>vov > 0\<close> (and \<open>texp > 0\<close>, \<open>dt > 0\<close>, \<open>n_path > 0\<close>, \<open>beta\<close> one of the two
  supported values), for every realization of the draws, \<open>ModelBsmCondMC.price\<close> returns
  for every strike the average over the paths of the closed-form price at the
  equivalent volatility \<open>sigma * sqrt((1 - rho^2) * I_T)\<close> and the equivalent spot; the
  equivalent spot is the terminal spot of the direct log-normal simulator (same shift,
  same log-normal step with one more draw) divided by the discount factor.
\<close>

theorem ModelBsmCondMC_price_formula:
  assumes "0 < vov self" "0 < texp" "0 < dt self" "0 < n_path self"
    and "beta self = 0 \<or> beta self = 1"
  shows "\<exists>vp I g1. sigma_path self g texp = Inr (vp, g1) \<and> intvar_normalized vp = Inr I \<and>
           g1 = (\<lambda>k. g (k + nat \<lceil>texp / dt self\<rceil> * nat (n_path self))) \<and>
           ModelBsmCondMC_price lib self g strike spot texp cp =
             Inr (map (closed_form_average lib self texp cp (nat (n_path self))
                         (\<lambda>j. residual_vol self (I ! j))
                         (\<lambda>j. bsm_equiv_spot self spot texp (last vp ! j) (I ! j) (g1 j))) strike,
                  (\<lambda>k. g1 (k + nat (n_path self)))) \<and>
           (\<forall>j. bsm_equiv_spot self spot texp (last vp ! j) (I ! j) (g1 j) =
                  bsm_terminal_spot self spot texp (last vp ! j) (I ! j) (g1 j) / exp (- intr self * texp))"
proof -
  have np: "0 \<le> n_path self" and v: "vov self \<noteq> 0" using assms by simp_all
  obtain vp I where p: "sigma_path self g texp =
        Inr (vp, (\<lambda>k. g (k + nat \<lceil>texp / dt self\<rceil> * nat (n_path self))))"
    and i: "intvar_normalized vp = Inr I"
    and l: "length (last vp) = nat (n_path self)" "length I = nat (n_path self)"
    using path_and_intvar [OF assms(2,3) np, of g] by blast
  have e: "bsm_equiv_spot self spot texp a b c = bsm_terminal_spot self spot texp a b c / exp (- intr self * texp)"
    for a b c by (simp add: bsm_equiv_spot_def bsm_terminal_spot_def)
  from ModelBsmCondMC_price_eval [OF p i v l assms(5)] p i e show ?thesis by blast
qed

theorem ModelBsmCondMC_price_formula_witness:
  "\<exists>ps g'. ModelBsmCondMC_price intrinsic_lib (ModelABC_init 0.2 0.5 0.3 1 0) zero_draws
               [90, 100, 110] 100 1 1 = Inr (ps, g') \<and> length ps = 3"
proof -
  let ?cfg = "ModelABC_init 0.2 0.5 0.3 1 0"
  have h: "0 < vov ?cfg" "(0::real) < 1" "0 < dt ?cfg" "0 < n_path ?cfg" "beta ?cfg = 0 \<or> beta ?cfg = 1"
    by (simp_all add: ModelABC_init_def)
  from ModelBsmCondMC_price_formula [OF h, of zero_draws intrinsic_lib "[90, 100, 110]" 100 1]
  show ?thesis by auto
qed

text \<open>
  C4 on the code: the model \<open>ModelNormCondMC(sigma=0.2, vov=0.5, rho=0.3)\<close> gets
  \<open>beta = 1.0\<close> from the default of \<open>__init__\<close>, so \<open>base_model\<close> hands out the
  log-normal pricer: the price is the average over the paths of \<open>bsm_price\<close>, not of the
  normal closed form, at the equivalent volatility and the terminal spot
  \<open>spot + sigma_T * sqrt(I_T) + sigma_T * sqrt(texp) * Z\<close>.
\<close>

theorem ModelNormCondMC_default_beta_prices_lognormal:
  "\<exists>vp I g1. sigma_path (ModelABC_init 0.2 0.5 0.3 1 0) g 1 = Inr (vp, g1) \<and>
     intvar_normalized vp = Inr I \<and>
     ModelNormCondMC_price lib (ModelABC_init 0.2 0.5 0.3 1 0) g strike spot 1 cp =
       Inr (map (\<lambda>K. (\<Sum>j = 0..<10000.
                        bsm_price lib (residual_vol (ModelABC_init 0.2 0.5 0.3 1 0) (I ! j)) 0 K
                          (norm_cond_spot spot 1 (last vp ! j) (I ! j) (g1 j)) 1 cp) / 10000) strike,
            (\<lambda>k. g1 (k + 10000)))"
proof -
  let ?cfg = "ModelABC_init 0.2 0.5 0.3 1 0"
  have h: "(0::real) < 1" "0 < dt ?cfg" "0 \<le> n_path ?cfg" "beta ?cfg = 0 \<or> beta ?cfg = 1"
    by (simp_all add: ModelABC_init_def)
  obtain vp I g1 where p: "sigma_path ?cfg g 1 = Inr (vp, g1)"
    and i: "intvar_normalized vp = Inr I"
    and l: "length (last vp) = nat (n_path ?cfg)" "length I = nat (n_path ?cfg)"
    using path_and_intvar [OF h(1,2,3), of g] by blast
  have c: "closed_form_average lib ?cfg 1 cp 10000 V S =
             (\<lambda>K. (\<Sum>j = 0..<10000. bsm_price lib (V j) 0 K (S j) 1 cp) / 10000)" for V S
    by (rule ext) (simp add: closed_form_average_def closed_form_def ModelABC_init_def)
  have n: "nat (n_path ?cfg) = 10000" by (simp add: ModelABC_init_def)
  have "ModelNormCondMC_price lib ?cfg g strike spot 1 cp =
       Inr (map (\<lambda>K. (\<Sum>j = 0..<10000.
                        bsm_price lib (residual_vol ?cfg (I ! j)) 0 K
                          (norm_cond_spot spot 1 (last vp ! j) (I ! j) (g1 j)) 1 cp) / 10000) strike,
            (\<lambda>k. g1 (k + 10000)))"
    using ModelNormCondMC_price_eval [OF p i l h(4), of lib strike spot cp]
    by (simp only: c n)
  with p i show ?thesis by blast
qed

subsection \<open>Monotonicity in the strike\<close>

lemma mean_mono:
  assumes "\<And>x. f x \<le> (h x :: real)"
  shows "mean (map f xs) \<le> mean (map h xs)"
proof -
  have "sum_list (map f xs) \<le> sum_list (map h xs)"
    by (rule sum_list_mono) (rule assms)
  then show ?thesis by (simp add: mean_def divide_right_mono)
qed

lemma payoff_call_antimono:
  assumes "0 \<le> df" "K \<le> K'"
  shows "df * mean (map (\<lambda>S. max (1 * (S - K')) 0) xs) \<le> df * mean (map (\<lambda>S. max (1 * (S - K)) 0) xs)"
  by (rule mult_left_mono [OF mean_mono assms(1)]) (use assms(2) in auto)

lemma payoff_put_mono:
  assumes "0 \<le> df" "K \<le> K'"
  shows "df * mean (map (\<lambda>S. max (- 1 * (S - K)) 0) xs) \<le> df * mean (map (\<lambda>S. max (- 1 * (S - K')) 0) xs)"
  by (rule mult_left_mono [OF mean_mono assms(1)]) (use assms(2) in auto)

lemma payoff_vector_monotone:
  assumes ps: "ps = map (\<lambda>K. exp a * mean (map (\<lambda>S. max (cp * (S - K)) 0) xs)) strike"
    and ij: "i < length strike" "j < length strike" "strike ! i \<le> strike ! j"
  shows "length ps = length strike \<and> (cp = 1 \<longrightarrow> ps ! j \<le> ps ! i) \<and> (cp = - 1 \<longrightarrow> ps ! i \<le> ps ! j)"
proof -
  have d: "0 \<le> exp a" by simp
  show ?thesis
    using payoff_call_antimono [OF d ij(3), of xs] payoff_put_mono [OF d ij(3), of xs] ij(1,2)
    by (simp add: ps)
qed

lemma ModelBsmMC_price_payoff:
  assumes p: "sigma_path self g texp = Inr (vp, g1)" and i: "intvar_normalized vp = Inr I"
    and v: "vov self \<noteq> 0"
  shows "\<exists>xs g2. ModelBsmMC_price self g strike spot texp cp =
           Inr (map (\<lambda>K. exp (- intr self * texp) * mean (map (\<lambda>S. max (cp * (S - K)) 0) xs)) strike, g2)"
  unfolding ModelBsmMC_price_def
  by (simp only: Let_def standard_normal_def p i sum.case prod.case v if_False div_0)
     (intro exI, rule refl)

lemma ModelNormMC_price_payoff:
  assumes p: "sigma_path self g texp = Inr (vp, g1)" and i: "intvar_normalized vp = Inr I"
    and v: "vov self \<noteq> 0"
  shows "\<exists>xs g2. ModelNormMC_price self g strike spot texp cp =
           Inr (map (\<lambda>K. exp (- intr self * texp) * mean (map (\<lambda>S. max (cp * (S - K)) 0) xs)) strike, g2)"
  unfolding ModelNormMC_price_def
  by (simp only: Let_def standard_normal_def p i sum.case prod.case v if_False div_0)
     (intro exI, rule refl)

lemma payoff_vector_monotone_all:
  assumes ps: "ps = map (\<lambda>K. exp a * mean (map (\<lambda>S. max (cp * (S - K)) 0) xs)) strike"
  shows "monotone_in_strike cp strike ps"
  unfolding monotone_in_strike_def
proof (intro conjI allI impI)
  show "length ps = length strike" by (simp add: ps)
next
  fix i j assume "i < length strike" "j < length strike" "strike ! i \<le> strike ! j" "cp = 1"
  then show "ps ! j \<le> ps ! i"
    using payoff_vector_monotone [OF ps, of i j] by blast
next
  fix i j assume "i < length strike" "j < length strike" "strike ! i \<le> strike ! j" "cp = - 1"
  then show "ps ! i \<le> ps ! j"
    using payoff_vector_monotone [OF ps, of i j] by blast
qed

lemma closed_form_average_antimono:
  assumes m: "closed_form_monotone lib" and K: "K \<le> K'"
  shows "closed_form_average lib self texp 1 n vol S K' \<le> closed_form_average lib self texp 1 n vol S K"
    and "closed_form_average lib self texp (- 1) n vol S K \<le> closed_form_average lib self texp (- 1) n vol S K'"
proof -
  have c: "closed_form lib self v K' s texp 1 \<le> closed_form lib self v K s texp 1" for v s
    using m K unfolding closed_form_monotone_def closed_form_def by simp
  have p: "closed_form lib self v K s texp (- 1) \<le> closed_form lib self v K' s texp (- 1)" for v s
    using m K unfolding closed_form_monotone_def closed_form_def by simp
  show "closed_form_average lib self texp 1 n vol S K' \<le> closed_form_average lib self texp 1 n vol S K"
    unfolding closed_form_average_def by (intro divide_right_mono sum_mono c) simp
  show "closed_form_average lib self texp (- 1) n vol S K \<le> closed_form_average lib self texp (- 1) n vol S K'"
    unfolding closed_form_average_def by (intro divide_right_mono sum_mono p) simp
qed

lemma closed_form_vector_monotone:
  assumes m: "closed_form_monotone lib"
    and ps: "ps = map (closed_form_average lib self texp cp n vol S) strike"
  shows "monotone_in_strike cp strike ps"
  unfolding monotone_in_strike_def
proof (intro conjI allI impI)
  show "length ps = length strike" by (simp add: ps)
next
  fix i j assume "i < length strike" "j < length strike" "strike ! i \<le> strike ! j" "cp = 1"
  then show "ps ! j \<le> ps ! i"
    using closed_form_average_antimono(1) [OF m, of "strike ! i" "strike ! j"] by (simp add: ps)
next
  fix i j assume "i < length strike" "j < length strike" "strike ! i \<le> strike ! j" "cp = - 1"
  then show "ps ! i \<le> ps ! j"
    using closed_form_average_antimono(2) [OF m, of "strike ! i" "strike ! j"] by (simp add: ps)
qed

text \<open>
  C9: for a fixed configuration (\<open>texp > 0\<close>, \<open>dt > 0\<close>, \<open>n_path > 0\<close>, \<open>rho\<close> in
  \<open>[-1, 1]\<close>) and a fixed realization of the draws, the vector that \<open>price\<close> returns is
  monotone in the strike, non-increasing for calls and non-decreasing for puts, for each
  of the four simulators: for \<open>ModelBsmMC\<close> and \<open>ModelNormMC\<close> whenever \<open>vov \<noteq> 0\<close>; for
  \<open>ModelBsmCondMC\<close> (with \<open>vov \<noteq> 0\<close>) and \<open>ModelNormCondMC\<close> whenever \<open>beta\<close> is \<open>0\<close>
  or \<open>1\<close> and the closed forms of pyfeng are monotone in the strike.
\<close>

theorem price_monotone_in_strike:
  assumes "0 < texp" "0 < dt self" "0 < n_path self" "\<bar>rho self\<bar> \<le> 1"
  shows "(vov self \<noteq> 0 \<longrightarrow>
            (\<forall>cls \<in> {BsmMC, NormMC}.
               \<exists>ps g'. price lib cls self g strike spot texp cp = Inr (ps, g') \<and>
                        monotone_in_strike cp strike ps)) \<and>
         (closed_form_monotone lib \<and> (beta self = 0 \<or> beta self = 1) \<longrightarrow>
            (vov self \<noteq> 0 \<longrightarrow>
               (\<exists>ps g'. price lib BsmCondMC self g strike spot texp cp = Inr (ps, g') \<and>
                         monotone_in_strike cp strike ps)) \<and>
            (\<exists>ps g'. price lib NormCondMC self g strike spot texp cp = Inr (ps, g') \<and>
                      monotone_in_strike cp strike ps))"
proof -
  have np: "0 \<le> n_path self" using assms(3) by simp
  obtain vp I g1 where p: "sigma_path self g texp = Inr (vp, g1)"
    and i: "intvar_normalized vp = Inr I"
    and l: "length (last vp) = nat (n_path self)" "length I = nat (n_path self)"
    using path_and_intvar [OF assms(1,2) np, of g] by blast
  have direct: "\<exists>ps g'. price lib cls self g strike spot texp cp = Inr (ps, g') \<and>
                        monotone_in_strike cp strike ps"
    if v: "vov self \<noteq> 0" and c: "cls \<in> {BsmMC, NormMC}" for cls
  proof -
    obtain xs g2 where b: "ModelBsmMC_price self g strike spot texp cp =
        Inr (map (\<lambda>K. exp (- intr self * texp) * mean (map (\<lambda>S. max (cp * (S - K)) 0) xs)) strike, g2)"
      using ModelBsmMC_price_payoff [OF p i v] by blast
    obtain ys g3 where n: "ModelNormMC_price self g strike spot texp cp =
        Inr (map (\<lambda>K. exp (- intr self * texp) * mean (map (\<lambda>S. max (cp * (S - K)) 0) ys)) strike, g3)"
      using ModelNormMC_price_payoff [OF p i v] by blast
    have mb: "monotone_in_strike cp strike
        (map (\<lambda>K. exp (- intr self * texp) * mean (map (\<lambda>S. max (cp * (S - K)) 0) xs)) strike)"
      by (rule payoff_vector_monotone_all [OF refl])
    have mn: "monotone_in_strike cp strike
        (map (\<lambda>K. exp (- intr self * texp) * mean (map (\<lambda>S. max (cp * (S - K)) 0) ys)) strike)"
      by (rule payoff_vector_monotone_all [OF refl])
    from c b n mb mn show ?thesis by auto
  qed
  have cond: "(vov self \<noteq> 0 \<longrightarrow>
               (\<exists>ps g'. price lib BsmCondMC self g strike spot texp cp = Inr (ps, g') \<and>
                         monotone_in_strike cp strike ps)) \<and>
            (\<exists>ps g'. price lib NormCondMC self g strike spot texp cp = Inr (ps, g') \<and>
                      monotone_in_strike cp strike ps)"
    if m: "closed_form_monotone lib" and b: "beta self = 0 \<or> beta self = 1"
  proof -
    note nc = ModelNormCondMC_price_eval [OF p i l b, of lib strike spot cp]
    have mono: "monotone_in_strike cp strike
        (map (closed_form_average lib self texp cp (nat (n_path self)) vol S) strike)" for vol S
      by (rule closed_form_vector_monotone [OF m refl])
    have bc: "\<exists>ps g'. price lib BsmCondMC self g strike spot texp cp = Inr (ps, g') \<and>
                         monotone_in_strike cp strike ps" if v: "vov self \<noteq> 0"
      using ModelBsmCondMC_price_eval [OF p i v l b, of lib strike spot cp] mono by simp
    from nc mono bc show ?thesis by simp
  qed
  from direct cond show ?thesis by blast
qed

theorem price_monotone_in_strike_witness:
  "(\<exists>ps g'. price intrinsic_lib BsmMC (ModelABC_init 0.2 0.5 0.3 1 0) zero_draws [90, 100, 110] 100 1 1
                 = Inr (ps, g') \<and> length ps = 3 \<and> ps ! 2 \<le> ps ! 0) \<and>
   (\<exists>ps g'. price intrinsic_lib NormMC (ModelABC_init 0.2 0.5 0.3 1 0) zero_draws [90, 100, 110] 100 1 1
                 = Inr (ps, g') \<and> length ps = 3 \<and> ps ! 2 \<le> ps ! 0) \<and>
   (\<exists>ps g'. price intrinsic_lib BsmCondMC (ModelABC_init 0.2 0.5 0.3 1 0) zero_draws [90, 100, 110] 100 1 1
                 = Inr (ps, g') \<and> length ps = 3 \<and> ps ! 2 \<le> ps ! 0) \<and>
   (\<exists>ps g'. price intrinsic_lib NormCondMC (ModelABC_init 0.2 0.5 0.3 1 0) zero_draws [90, 100, 110] 100 1 1
                 = Inr (ps, g') \<and> length ps = 3 \<and> ps ! 2 \<le> ps ! 0)"
proof -
  let ?cfg = "ModelABC_init 0.2 0.5 0.3 1 0"
  have h: "(0::real) < 1" "0 < dt ?cfg" "0 < n_path ?cfg" "\<bar>rho ?cfg\<bar> \<le> 1"
    by (simp_all add: ModelABC_init_def)
  have v: "vov ?cfg \<noteq> 0" and b: "beta ?cfg = 0 \<or> beta ?cfg = 1"
    by (simp_all add: ModelABC_init_def)
  have m: "closed_form_monotone intrinsic_lib"
    by (auto simp add: closed_form_monotone_def intrinsic_lib_def)
  have e: "length ps = 3 \<and> ps ! 2 \<le> ps ! 0" if "monotone_in_strike 1 [90, 100, 110] ps" for ps
    using that unfolding monotone_in_strike_def by simp
  note T = price_monotone_in_strike [OF h, of intrinsic_lib zero_draws "[90, 100, 110]" 100 1]
  from T v have d: "\<forall>cls \<in> {BsmMC, NormMC}.
      \<exists>ps g'. price intrinsic_lib cls ?cfg zero_draws [90, 100, 110] 100 1 1 = Inr (ps, g') \<and>
               monotone_in_strike 1 [90, 100, 110] ps"
    by (rule mp [OF conjunct1])
  from T m b have c: "(vov ?cfg \<noteq> 0 \<longrightarrow>
      (\<exists>ps g'. price intrinsic_lib BsmCondMC ?cfg zero_draws [90, 100, 110] 100 1 1 = Inr (ps, g') \<and>
                monotone_in_strike 1 [90, 100, 110] ps)) \<and>
      (\<exists>ps g'. price intrinsic_lib NormCondMC ?cfg zero_draws [90, 100, 110] 100 1 1 = Inr (ps, g') \<and>
                monotone_in_strike 1 [90, 100, 110] ps)"
    by (intro mp [OF conjunct2 [OF T]] conjI)
  obtain p1 g1 where p1: "price intrinsic_lib BsmMC ?cfg zero_draws [90, 100, 110] 100 1 1 = Inr (p1, g1)"
      "monotone_in_strike 1 [90, 100, 110] p1"
    using d by auto
  obtain p2 g2 where p2: "price intrinsic_lib NormMC ?cfg zero_draws [90, 100, 110] 100 1 1 = Inr (p2, g2)"
      "monotone_in_strike 1 [90, 100, 110] p2"
    using d by auto
  obtain p3 g3 where p3: "price intrinsic_lib BsmCondMC ?cfg zero_draws [90, 100, 110] 100 1 1 = Inr (p3, g3)"
      "monotone_in_strike 1 [90, 100, 110] p3"
    using c v by auto
  obtain p4 g4 where p4: "price intrinsic_lib NormCondMC ?cfg zero_draws [90, 100, 110] 100 1 1 = Inr (p4, g4)"
      "monotone_in_strike 1 [90, 100, 110] p4"
    using c by auto
  show ?thesis
    using p1(1) e [OF p1(2)] p2(1) e [OF p2(2)] p3(1) e [OF p3(2)] p4(1) e [OF p4(2)]
    by blast
qed

end
